theory Spec2Isabelle
  imports Complex_Main "HOL-Library.Word" "HOL-Library.AList"
begin

unbundle bit_operations_syntax

section \<open>Python strings\<close>

text \<open>
  A Python \<open>str\<close> is a sequence of Unicode code points, so it is modelled as a list of
  naturals (one per code point); \<open>len\<close>, slicing and \<open>in\<close> count code points, as in
  Python. \<open>S\<close> turns an ASCII literal of the source into such a list.
\<close>

type_synonym pystr = "nat list"

definition S :: "string \<Rightarrow> pystr" where
  "S cs = map of_char cs"

text \<open>
  \<open>str.lower()\<close>: the ASCII letters are mapped as Python maps them; code points outside
  ASCII are left as they are (Python also lowers non-ASCII letters, which no result below
  depends on).
\<close>

definition lower_cp :: "nat \<Rightarrow> nat" where
  "lower_cp c = (if 65 \<le> c \<and> c \<le> 90 then c + 32 else c)"

definition py_lower :: "pystr \<Rightarrow> pystr" where
  "py_lower s = map lower_cp s"

text \<open>\<open>s.startswith(p)\<close> and the substring test \<open>n in h\<close>.\<close>

fun startswith :: "pystr \<Rightarrow> pystr \<Rightarrow> bool" where
  "startswith s [] = True"
| "startswith [] (p # ps) = False"
| "startswith (c # cs) (p # ps) = (c = p \<and> startswith cs ps)"

fun py_in :: "pystr \<Rightarrow> pystr \<Rightarrow> bool" where
  "py_in n [] = (n = [])"
| "py_in n (c # cs) = (startswith (c # cs) n \<or> py_in n cs)"

text \<open>
  The white space of \<open>str.strip()\<close>, \<open>str.split()\<close> and of \<open>\s\<close> in a \<open>str\<close> pattern:
  the code points for which \<open>str.isspace\<close> holds.
\<close>

definition isspace :: "nat \<Rightarrow> bool" where
  "isspace c \<longleftrightarrow>
     (9 \<le> c \<and> c \<le> 13) \<or> (28 \<le> c \<and> c \<le> 32) \<or> c = 133 \<or> c = 160 \<or> c = 5760 \<or>
     (8192 \<le> c \<and> c \<le> 8202) \<or> c = 8232 \<or> c = 8233 \<or> c = 8239 \<or> c = 8287 \<or> c = 12288"

definition py_strip :: "pystr \<Rightarrow> pystr" where
  "py_strip s = rev (dropWhile isspace (rev (dropWhile isspace s)))"

section \<open>The source model (models/source.py)\<close>

text \<open>
  \<open>func.now()\<close> is an SQL expression evaluated by the database at flush time, so a
  timestamp column holds NULL, a stored time or that expression.
\<close>

datatype db_time = Db_null | Db_time int | Func_now

text \<open>
  The columns of \<open>Source\<close> that the fetcher, the classifier and the health tracker read
  or write. Nullable text columns are options; the JSONB keyword lists are lists of
  strings (NULL behaves as the empty list in every test the code makes).
\<close>

record source =
  id :: nat
  name :: pystr
  url :: pystr
  source_type :: pystr
  language :: pystr
  rss_url :: "pystr option"
  editorial_url :: "pystr option"
  editorial_rss :: "pystr option"
  health_status :: pystr
  last_successful_fetch :: db_time
  last_error :: "pystr option"
  error_count :: int
  request_delay :: "real option"
  max_articles_per_fetch :: "int option"
  success_rate :: real
  keyword_filters :: "pystr list"
  exclude_keywords :: "pystr list"
  total_successful_fetches :: int
  total_failed_fetches :: int

text \<open>A source as the column defaults create it.\<close>

definition default_source :: source where
  "default_source =
     \<lparr>id = 0, name = S ''example'', url = S ''http://example.org'', source_type = S ''rss'',
      language = S ''en'', rss_url = Some (S ''http://example.org/feed''),
      editorial_url = None, editorial_rss = None,
      health_status = S ''healthy'', last_successful_fetch = Db_null, last_error = None,
      error_count = 0, request_delay = Some 1, max_articles_per_fetch = Some 50,
      success_rate = 1, keyword_filters = [], exclude_keywords = [],
      total_successful_fetches = 0, total_failed_fetches = 0\<rparr>"

text \<open>Python truthiness of an optional string: neither \<open>None\<close> nor empty.\<close>

definition truthy :: "pystr option \<Rightarrow> bool" where
  "truthy v = (case v of None \<Rightarrow> False | Some s \<Rightarrow> s \<noteq> [])"

definition fetch_url :: "source \<Rightarrow> pystr" where
  "fetch_url self =
     (if source_type self = S ''rss'' \<and> truthy (rss_url self) then the (rss_url self)
      else if source_type self = S ''rss'' \<and> truthy (editorial_rss self) then the (editorial_rss self)
      else if source_type self = S ''scrape'' \<and> truthy (editorial_url self) then the (editorial_url self)
      else url self)"

subsection \<open>Health tracking\<close>

definition update_health_status :: "source \<Rightarrow> bool \<Rightarrow> pystr option \<Rightarrow> source" where
  "update_health_status self is_success error_message =
     (let s1 =
        (if is_success then
           (let a = self\<lparr>last_successful_fetch := Func_now,
                          total_successful_fetches := total_successful_fetches self + 1,
                          error_count := 0,
                          last_error := None\<rparr>
            in if error_count a = 0 then a\<lparr>health_status := S ''healthy''\<rparr> else a)
         else
           (let a = self\<lparr>total_failed_fetches := total_failed_fetches self + 1,
                          error_count := error_count self + 1,
                          last_error := error_message\<rparr>
            in if error_count a \<ge> 5 then a\<lparr>health_status := S ''error''\<rparr>
               else if error_count a \<ge> 2 then a\<lparr>health_status := S ''warning''\<rparr>
               else a));
        total_fetches = total_successful_fetches s1 + total_failed_fetches s1
      in if total_fetches > 0
         then s1\<lparr>success_rate := real_of_int (total_successful_fetches s1) / real_of_int total_fetches\<rparr>
         else s1)"

text \<open>
  A sequence of recorded fetch outcomes, oldest first: each is the pair
  \<open>(is_success, error_message)\<close> passed to \<open>update_health_status\<close>.
\<close>

fun record_outcomes :: "source \<Rightarrow> (bool \<times> pystr option) list \<Rightarrow> source" where
  "record_outcomes s [] = s"
| "record_outcomes s ((ok, msg) # rest) = record_outcomes (update_health_status s ok msg) rest"

text \<open>A run of failures, one per error message.\<close>

definition failures :: "pystr option list \<Rightarrow> (bool \<times> pystr option) list" where
  "failures msgs = map (\<lambda>m. (False, m)) msgs"

section \<open>The fingerprint (services/rss_scraper.py, \<open>_generate_content_hash\<close>)\<close>

text \<open>
  Exceptions the modelled code can raise. \<open>Other_exception\<close> stands for an exception of
  a library call whose inside is not modelled (BeautifulSoup, datetime parsing).
\<close>

datatype exn = UnicodeEncodeError | AttributeError | ValueError pystr | Other_exception pystr

type_synonym byte = "8 word"

text \<open>
  \<open>str.encode('utf-8')\<close>: one to four bytes per code point; a surrogate (U+D800 to U+DFFF)
  raises UnicodeEncodeError. A number above U+10FFFF is no code point of a Python string and
  is refused as well.
\<close>

fun utf8_cp :: "nat \<Rightarrow> byte list option" where
  "utf8_cp c =
     (if c < 128 then Some [of_nat c]
      else if c < 2048 then Some [of_nat (192 + c div 64), of_nat (128 + c mod 64)]
      else if c < 65536 then
        (if 55296 \<le> c \<and> c \<le> 57343 then None
         else Some [of_nat (224 + c div 4096), of_nat (128 + (c div 64) mod 64), of_nat (128 + c mod 64)])
      else if c < 1114112 then
        Some [of_nat (240 + c div 262144), of_nat (128 + (c div 4096) mod 64),
              of_nat (128 + (c div 64) mod 64), of_nat (128 + c mod 64)]
      else None)"

fun encode_utf8 :: "pystr \<Rightarrow> byte list option" where
  "encode_utf8 [] = Some []"
| "encode_utf8 (c # cs) =
     (case utf8_cp c of None \<Rightarrow> None
      | Some bs \<Rightarrow> (case encode_utf8 cs of None \<Rightarrow> None | Some rest \<Rightarrow> Some (bs @ rest)))"

text \<open>
  \<open>hashlib.md5\<close>, as RFC 1321 defines it: the message is padded to a multiple of 64 bytes
  (a byte 0x80, zeros, the bit length as 64 bits little endian), and each block of 16
  little-endian words goes through 64 rounds on a state of four 32-bit words.
\<close>

definition md5_K :: "32 word list" where
  "md5_K = [
    0xd76aa478, 0xe8c7b756, 0x242070db, 0xc1bdceee, 0xf57c0faf, 0x4787c62a, 0xa8304613, 0xfd469501,
    0x698098d8, 0x8b44f7af, 0xffff5bb1, 0x895cd7be, 0x6b901122, 0xfd987193, 0xa679438e, 0x49b40821,
    0xf61e2562, 0xc040b340, 0x265e5a51, 0xe9b6c7aa, 0xd62f105d, 0x02441453, 0xd8a1e681, 0xe7d3fbc8,
    0x21e1cde6, 0xc33707d6, 0xf4d50d87, 0x455a14ed, 0xa9e3e905, 0xfcefa3f8, 0x676f02d9, 0x8d2a4c8a,
    0xfffa3942, 0x8771f681, 0x6d9d6122, 0xfde5380c, 0xa4beea44, 0x4bdecfa9, 0xf6bb4b60, 0xbebfbc70,
    0x289b7ec6, 0xeaa127fa, 0xd4ef3085, 0x04881d05, 0xd9d4d039, 0xe6db99e5, 0x1fa27cf8, 0xc4ac5665,
    0xf4292244, 0x432aff97, 0xab9423a7, 0xfc93a039, 0x655b59c3, 0x8f0ccc92, 0xffeff47d, 0x85845dd1,
    0x6fa87e4f, 0xfe2ce6e0, 0xa3014314, 0x4e0811a1, 0xf7537e82, 0xbd3af235, 0x2ad7d2bb, 0xeb86d391]"

definition md5_s :: "nat list" where
  "md5_s = [7, 12, 17, 22, 7, 12, 17, 22, 7, 12, 17, 22, 7, 12, 17, 22,
            5, 9, 14, 20, 5, 9, 14, 20, 5, 9, 14, 20, 5, 9, 14, 20,
            4, 11, 16, 23, 4, 11, 16, 23, 4, 11, 16, 23, 4, 11, 16, 23,
            6, 10, 15, 21, 6, 10, 15, 21, 6, 10, 15, 21, 6, 10, 15, 21]"

type_synonym md5_state = "32 word \<times> 32 word \<times> 32 word \<times> 32 word"

definition le32 :: "byte list \<Rightarrow> 32 word" where
  "le32 bs = foldr (\<lambda>b w. ucast b OR push_bit 8 w) (take 4 bs) 0"

definition md5_words :: "byte list \<Rightarrow> 32 word list" where
  "md5_words block = map (\<lambda>j. le32 (drop (4 * j) block)) [0..<16]"

definition md5_round :: "32 word list \<Rightarrow> md5_state \<Rightarrow> nat \<Rightarrow> md5_state" where
  "md5_round M st i =
     (case st of (A, B, C, D) \<Rightarrow>
        let (F, g) =
              (if i < 16 then ((B AND C) OR (NOT B AND D), i)
               else if i < 32 then ((D AND B) OR (NOT D AND C), (5 * i + 1) mod 16)
               else if i < 48 then (B XOR C XOR D, (3 * i + 5) mod 16)
               else (C XOR (B OR NOT D), (7 * i) mod 16));
            F' = F + A + md5_K ! i + M ! g
        in (D, B + word_rotl (md5_s ! i) F', B, C))"

definition md5_block :: "md5_state \<Rightarrow> byte list \<Rightarrow> md5_state" where
  "md5_block st block =
     (case st of (a0, b0, c0, d0) \<Rightarrow>
        (case foldl (md5_round (md5_words block)) st [0..<64] of
           (A, B, C, D) \<Rightarrow> (a0 + A, b0 + B, c0 + C, d0 + D)))"

fun md5_blocks :: "nat \<Rightarrow> md5_state \<Rightarrow> byte list \<Rightarrow> md5_state" where
  "md5_blocks 0 st bs = st"
| "md5_blocks (Suc n) st bs = md5_blocks n (md5_block st (take 64 bs)) (drop 64 bs)"

definition le_bytes32 :: "32 word \<Rightarrow> byte list" where
  "le_bytes32 w = map (\<lambda>j. ucast (drop_bit (8 * j) w)) [0..<4]"

definition le_bytes64 :: "64 word \<Rightarrow> byte list" where
  "le_bytes64 w = map (\<lambda>j. ucast (drop_bit (8 * j) w)) [0..<8]"

definition md5_pad :: "byte list \<Rightarrow> byte list" where
  "md5_pad msg =
     msg @ [128] @ replicate ((64 - (length msg + 9) mod 64) mod 64) 0 @
     le_bytes64 (8 * of_nat (length msg))"

definition md5_digest :: "byte list \<Rightarrow> byte list" where
  "md5_digest msg =
     (let padded = md5_pad msg in
      case md5_blocks (length padded div 64) (0x67452301, 0xefcdab89, 0x98badcfe, 0x10325476) padded of
        (a, b, c, d) \<Rightarrow> concat (map le_bytes32 [a, b, c, d]))"

text \<open>\<open>hexdigest()\<close>: two lower-case hexadecimal digits per byte.\<close>

definition hexdigit :: "nat \<Rightarrow> nat" where
  "hexdigit n = (if n < 10 then 48 + n else 87 + n)"

definition hexdigest :: "byte list \<Rightarrow> pystr" where
  "hexdigest bs = concat (map (\<lambda>b. [hexdigit (unat b div 16), hexdigit (unat b mod 16)]) bs)"

text \<open>
  \<open>combined = f"{title}{content[:500]}"\<close>, then the MD5 hex digest of its UTF-8 encoding.
\<close>

definition generate_content_hash :: "pystr \<Rightarrow> pystr \<Rightarrow> exn + pystr" where
  "generate_content_hash title content =
     (let combined = title @ take 500 content in
      case encode_utf8 combined of
        None \<Rightarrow> Inl UnicodeEncodeError
      | Some bs \<Rightarrow> Inr (hexdigest (md5_digest bs)))"

section \<open>Feed entries and extraction (services/rss_scraper.py)\<close>

text \<open>
  More of Python's string library: \<open>re.sub(r'\s+', ' ', s)\<close> replaces each maximal run of
  white space by one space (the flag says whether the previous code point was white space),
  and \<open>s.split()\<close> lists the maximal runs of code points that are not white space.
\<close>

fun collapse_ws_from :: "bool \<Rightarrow> pystr \<Rightarrow> pystr" where
  "collapse_ws_from prev [] = []"
| "collapse_ws_from prev (c # cs) =
     (if isspace c then (if prev then collapse_ws_from True cs else 32 # collapse_ws_from True cs)
      else c # collapse_ws_from False cs)"

definition collapse_ws :: "pystr \<Rightarrow> pystr" where
  "collapse_ws s = collapse_ws_from False s"

fun py_split_from :: "pystr \<Rightarrow> pystr \<Rightarrow> pystr list" where
  "py_split_from w [] = (if w = [] then [] else [w])"
| "py_split_from w (c # cs) =
     (if isspace c then (if w = [] then py_split_from [] cs else w # py_split_from [] cs)
      else py_split_from (w @ [c]) cs)"

definition py_split :: "pystr \<Rightarrow> pystr list" where
  "py_split s = py_split_from [] s"

text \<open>
  The slice \<open>xs[:n]\<close>: \<open>None\<close> keeps the whole list, a negative \<open>n\<close> drops the last \<open>-n\<close>
  elements.
\<close>

definition py_slice_to :: "'a list \<Rightarrow> int option \<Rightarrow> 'a list" where
  "py_slice_to xs n =
     (case n of
        None \<Rightarrow> xs
      | Some k \<Rightarrow> if 0 \<le> k then take (nat k) xs else take (length xs - nat (- k)) xs)"

text \<open>
  What the scraper reads of its surroundings: \<open>html.unescape\<close>, the clock
  (\<open>datetime.now(timezone.utc)\<close>), \<open>settings.MAX_RETRIES\<close>, the reply of the HTTP session to
  the n-th request for a URL, and \<open>feedparser.parse\<close>.
\<close>

datatype http_reply =
    Response nat "byte list"
  | Timeout
  | Connection_error
  | Other_request_exception pystr
  | Unexpected_exception pystr

text \<open>
  An entry of the parsed feed. \<open>e_title\<close>, \<open>e_link\<close> and \<open>e_tags\<close> are the keys \<open>title\<close>,
  \<open>link\<close> and \<open>tags\<close> (\<open>None\<close>: the key is absent; a tag is its \<open>term\<close>, \<open>None\<close> when
  the term is \<open>None\<close>). The other fields hold what the helpers built on BeautifulSoup and
  datetime return for this entry, or the exception they raise: \<open>_parse_date\<close>,
  \<open>_extract_content\<close>, \<open>_extract_excerpt\<close>, \<open>_extract_author\<close>, \<open>_extract_image_url\<close>.
\<close>

record entry =
  e_title :: "pystr option"
  e_link :: "pystr option"
  e_tags :: "pystr option list option"
  e_id :: pystr
  e_feed_title :: pystr
  e_published :: "exn + int option"
  e_content :: "exn + pystr"
  e_excerpt :: "exn + pystr"
  e_author :: "exn + pystr option"
  e_image_url :: "exn + pystr option"

record feed =
  entries :: "entry list"
  bozo :: bool

record env =
  html_unescape :: "pystr \<Rightarrow> pystr"
  utcnow :: int
  MAX_RETRIES :: int
  http_get :: "pystr \<Rightarrow> nat \<Rightarrow> http_reply"
  feedparser_parse :: "byte list \<Rightarrow> feed"

text \<open>The article dictionary that extraction builds for one entry.\<close>

record article =
  a_title :: pystr
  a_url :: pystr
  a_content :: pystr
  a_excerpt :: pystr
  a_author :: "pystr option"
  a_category :: pystr
  a_published_date :: int
  a_language :: pystr
  a_word_count :: nat
  a_image_url :: "pystr option"
  a_source_id :: nat
  a_content_hash :: pystr
  a_rss_entry_id :: pystr
  a_rss_tags :: "pystr option list"
  a_feed_title :: pystr
  a_is_editorial :: "bool option"
  a_is_opinion :: "bool option"

definition clean_text :: "env \<Rightarrow> pystr \<Rightarrow> pystr" where
  "clean_text env text = (if text = [] then [] else py_strip (collapse_ws (html_unescape env text)))"

text \<open>
  \<open>_extract_category\<close>: the loop over the tags stops at the first tag whose lower-cased
  term contains one of the three keywords; a term that is \<open>None\<close> raises AttributeError at
  \<open>.lower()\<close>.
\<close>

fun scan_tags :: "pystr option list \<Rightarrow> pystr \<Rightarrow> exn + pystr" where
  "scan_tags [] category = Inr category"
| "scan_tags (None # tags) category = Inl AttributeError"
| "scan_tags (Some term # tags) category =
     (let tag_term = py_lower term in
      if list_ex (\<lambda>keyword. py_in keyword tag_term) [S ''opinion'', S ''editorial'', S ''comment'']
      then (if py_in (S ''opinion'') tag_term then Inr (S ''opinion'') else Inr category)
      else scan_tags tags category)"

definition extract_category :: "entry \<Rightarrow> source \<Rightarrow> exn + pystr" where
  "extract_category entry src =
     (case (case e_tags entry of None \<Rightarrow> Inr (S ''editorial'')
                               | Some tags \<Rightarrow> scan_tags tags (S ''editorial'')) of
        Inl e \<Rightarrow> Inl e
      | Inr category \<Rightarrow>
          (let title_lower = py_lower (case e_title entry of None \<Rightarrow> [] | Some t \<Rightarrow> t) in
           if list_ex (\<lambda>keyword. py_in keyword title_lower)
                [S ''opinion:'', S ''editorial:'', S ''comment:'']
           then (if py_in (S ''opinion:'') title_lower then Inr (S ''opinion'') else Inr category)
           else Inr category))"

text \<open>
  \<open>_extract_article_data\<close>: \<open>None\<close> when the cleaned title or the link is empty, and
  \<open>None\<close> as well when any step raises (the function catches every exception).
\<close>

definition extract_article_data :: "env \<Rightarrow> entry \<Rightarrow> source \<Rightarrow> article option" where
  "extract_article_data env entry src =
     (let title = clean_text env (case e_title entry of None \<Rightarrow> [] | Some t \<Rightarrow> t) in
      if title = [] then None
      else
        (let url = (case e_link entry of None \<Rightarrow> [] | Some u \<Rightarrow> u) in
         if url = [] then None
         else
           (case e_published entry of Inl _ \<Rightarrow> None | Inr parsed \<Rightarrow>
           (case e_content entry of Inl _ \<Rightarrow> None | Inr content \<Rightarrow>
           (case e_excerpt entry of Inl _ \<Rightarrow> None | Inr excerpt \<Rightarrow>
           (case e_author entry of Inl _ \<Rightarrow> None | Inr author \<Rightarrow>
           (case extract_category entry src of Inl _ \<Rightarrow> None | Inr category \<Rightarrow>
           (case generate_content_hash title content of Inl _ \<Rightarrow> None | Inr content_hash \<Rightarrow>
           (case e_image_url entry of Inl _ \<Rightarrow> None | Inr image_url \<Rightarrow>
              Some \<lparr>a_title = title, a_url = url, a_content = content, a_excerpt = excerpt,
                    a_author = author, a_category = category,
                    a_published_date = (case parsed of None \<Rightarrow> utcnow env | Some d \<Rightarrow> d),
                    a_language = language src,
                    a_word_count = (if content = [] then 0 else length (py_split content)),
                    a_image_url = image_url, a_source_id = id src,
                    a_content_hash = content_hash, a_rss_entry_id = e_id entry,
                    a_rss_tags = (case e_tags entry of None \<Rightarrow> [] | Some tags \<Rightarrow> tags),
                    a_feed_title = e_feed_title entry,
                    a_is_editorial = None, a_is_opinion = None\<rparr>)))))))))"

text \<open>\<open>_extract_articles_from_feed\<close>: the loop over \<open>entries[:max_articles_per_fetch]\<close>.\<close>

fun extract_entries :: "env \<Rightarrow> source \<Rightarrow> entry list \<Rightarrow> article list" where
  "extract_entries env src [] = []"
| "extract_entries env src (entry # rest) =
     (case extract_article_data env entry src of
        None \<Rightarrow> extract_entries env src rest
      | Some article_data \<Rightarrow> article_data # extract_entries env src rest)"

definition extract_articles_from_feed :: "env \<Rightarrow> feed \<Rightarrow> source \<Rightarrow> article list" where
  "extract_articles_from_feed env feed_data src =
     extract_entries env src (py_slice_to (entries feed_data) (max_articles_per_fetch src))"

section \<open>The editorial classifier\<close>

definition editorial_indicators :: "pystr list" where
  "editorial_indicators =
     [S ''editorial:'', S ''opinion:'', S ''comment:'', S ''analysis:'',
      S ''editorial -'', S ''opinion -'', S ''comment -'',
      S ''our view:'', S ''editor'' @ [39] @ S ''s note:'', S ''editor'' @ [39] @ S ''s pick:'']"

definition editorial_keywords :: "pystr list" where
  "editorial_keywords =
     [S ''editorial'', S ''opinion'', S ''viewpoint'', S ''perspective'',
      S ''commentary'', S ''analysis'', S ''our view'', S ''editor'']"

definition is_editorial_content :: "article \<Rightarrow> source \<Rightarrow> bool" where
  "is_editorial_content article src =
     (let title = py_lower (a_title article);
          content = py_lower (a_content article);
          category = py_lower (a_category article)
      in if category \<in> set [S ''editorial'', S ''opinion'', S ''comment''] then True
         else if list_ex (\<lambda>indicator. py_in indicator title) editorial_indicators then True
         else
           (let title_has_editorial_keyword = list_ex (\<lambda>keyword. py_in keyword title) editorial_keywords;
                url = py_lower (a_url article);
                url_has_editorial = list_ex (\<lambda>keyword. py_in keyword url)
                  [S ''editorial'', S ''opinion'', S ''comment'', S ''viewpoint'']
            in if keyword_filters src \<noteq> [] \<and>
                  \<not> list_ex (\<lambda>keyword. py_in (py_lower keyword) title \<or> py_in (py_lower keyword) content)
                      (keyword_filters src)
               then False
               else if exclude_keywords src \<noteq> [] \<and>
                  list_ex (\<lambda>keyword. py_in (py_lower keyword) title \<or> py_in (py_lower keyword) content)
                      (exclude_keywords src)
               then False
               else title_has_editorial_keyword \<or> url_has_editorial))"

fun filter_editorial_articles :: "article list \<Rightarrow> source \<Rightarrow> article list" where
  "filter_editorial_articles [] src = []"
| "filter_editorial_articles (article # rest) src =
     (if is_editorial_content article src
      then article\<lparr>a_is_editorial := Some (a_category article = S ''editorial''),
                   a_is_opinion := Some (a_category article = S ''opinion'')\<rparr>
           # filter_editorial_articles rest src
      else filter_editorial_articles rest src)"

section \<open>The feed fetcher (\<open>fetch_feed\<close>)\<close>

text \<open>
  The error message of a failed fetch, kept structured: the attempt number (from 1) and the
  reply that failed stand for \<open>f"Request failed (attempt {attempt + 1}): {str(e)}"\<close>.
\<close>

datatype fetch_error =
    No_feed_URL_configured
  | Request_failed nat http_reply
  | Unexpected_error nat pystr
  | Failed_to_fetch_feed
  | RSS_scraping_failed pystr exn

text \<open>What the fetcher does to the outside, in order: sleeps and HTTP requests.\<close>

datatype event = Sleep real | Get pystr nat

text \<open>
  One pass of the retry loop's body: \<open>session.get\<close>, \<open>raise_for_status\<close> (an HTTPError, a
  RequestException, for every status from 400 to 599), \<open>feedparser.parse\<close>.
\<close>

definition attempt :: "env \<Rightarrow> pystr \<Rightarrow> nat \<Rightarrow> fetch_error + feed" where
  "attempt env feed_url n =
     (case http_get env feed_url n of
        Response status content \<Rightarrow>
          if 400 \<le> status \<and> status < 600
          then Inl (Request_failed (n + 1) (Response status content))
          else Inr (feedparser_parse env content)
      | Unexpected_exception msg \<Rightarrow> Inl (Unexpected_error (n + 1) msg)
      | reply \<Rightarrow> Inl (Request_failed (n + 1) reply))"

text \<open>
  \<open>for attempt in range(settings.MAX_RETRIES)\<close>: the remaining attempt numbers, the last
  error so far; the result is \<open>feed_data\<close>, \<open>last_error\<close> and the events of the loop.
\<close>

fun fetch_attempts ::
  "env \<Rightarrow> pystr \<Rightarrow> nat list \<Rightarrow> fetch_error option \<Rightarrow> feed option \<times> fetch_error option \<times> event list" where
  "fetch_attempts env feed_url [] last_err = (None, last_err, [])"
| "fetch_attempts env feed_url (n # rest) last_err =
     (case attempt env feed_url n of
        Inr feed_data \<Rightarrow> (Some feed_data, last_err, [Get feed_url n])
      | Inl err \<Rightarrow>
          (case fetch_attempts env feed_url rest (Some err) of
             (feed_data, last_err', events) \<Rightarrow>
               (feed_data, last_err',
                Get feed_url n
                # (if int n < MAX_RETRIES env - 1 then [Sleep (2 ^ n)] else []) @ events)))"

text \<open>
  \<open>fetch_feed\<close> returns \<open>(success, articles_data, error_message)\<close>; the model pairs it
  with the events. \<open>time.sleep\<close> raises ValueError on a negative delay, which the outer
  handler turns into a failure.
\<close>

definition fetch_feed ::
  "env \<Rightarrow> source \<Rightarrow> (bool \<times> article list \<times> fetch_error option) \<times> event list" where
  "fetch_feed env src =
     (let feed_url = fetch_url src in
      if feed_url = [] then ((False, [], Some No_feed_URL_configured), [])
      else
        (case (case request_delay src of
                 None \<Rightarrow> Inr []
               | Some d \<Rightarrow> if d = 0 then Inr []
                           else if d < 0 then Inl (ValueError (S ''sleep length must be non-negative''))
                           else Inr [Sleep d]) of
           Inl e \<Rightarrow> ((False, [], Some (RSS_scraping_failed (name src) e)), [])
         | Inr delay \<Rightarrow>
             (case fetch_attempts env feed_url [0..<nat (MAX_RETRIES env)] None of
                (None, last_err, events) \<Rightarrow>
                  ((False, [], Some (case last_err of None \<Rightarrow> Failed_to_fetch_feed | Some e \<Rightarrow> e)),
                   delay @ events)
              | (Some feed_data, last_err, events) \<Rightarrow>
                  ((True,
                    filter_editorial_articles (extract_articles_from_feed env feed_data src) src,
                    None),
                   delay @ events))))"

section \<open>Summarization (services/summarization.py)\<close>

text \<open>The rows of \<open>Article\<close> that summarization reads or writes.\<close>

record db_article =
  art_id :: nat
  art_title :: pystr
  art_content :: "pystr option"
  art_language :: pystr
  art_summary :: "pystr option"
  art_is_summary_generated :: bool
  art_metadata :: "(pystr \<times> pystr) list"

record model_config =
  model_name :: pystr
  max_input_length :: nat
  max_output_length :: nat
  min_output_length :: nat
  model_type :: pystr

definition model_configs :: "(pystr \<times> model_config) list" where
  "model_configs =
     [(S ''bart-large-cnn'',
         \<lparr>model_name = S ''facebook/bart-large-cnn'', max_input_length = 1024,
          max_output_length = 150, min_output_length = 50, model_type = S ''huggingface''\<rparr>),
      (S ''pegasus-xsum'',
         \<lparr>model_name = S ''google/pegasus-xsum'', max_input_length = 512,
          max_output_length = 128, min_output_length = 32, model_type = S ''huggingface''\<rparr>),
      (S ''t5-small'',
         \<lparr>model_name = S ''t5-small'', max_input_length = 512,
          max_output_length = 150, min_output_length = 50, model_type = S ''huggingface''\<rparr>),
      (S ''gpt-3.5-turbo'',
         \<lparr>model_name = S ''gpt-3.5-turbo'', max_input_length = 4000,
          max_output_length = 200, min_output_length = 50, model_type = S ''openai''\<rparr>),
      (S ''gpt-4'',
         \<lparr>model_name = S ''gpt-4'', max_input_length = 8000,
          max_output_length = 300, min_output_length = 50, model_type = S ''openai''\<rparr>)]"

text \<open>The triple \<open>(success, summary, error_message)\<close>.\<close>

type_synonym summary_result = "bool \<times> pystr option \<times> pystr option"

text \<open>
  A call of a backend: \<open>_summarize_with_openai\<close> (the remote API) with the prepared text,
  the model key, the custom prompt and the language, or \<open>_summarize_with_huggingface\<close>
  (local inference) with the prepared text and the model key. Both catch their own
  exceptions and return a triple.
\<close>

datatype backend_call =
    Openai_call pystr pystr "pystr option" pystr
  | Huggingface_call pystr pystr

text \<open>
  What the service reads of its surroundings: \<open>settings.DEFAULT_SUMMARY_MODEL\<close>, the
  regular expressions of \<open>_clean_content\<close>, the two backends and the clock
  (\<open>datetime.utcnow().isoformat()\<close>).
\<close>

record summ_env =
  DEFAULT_SUMMARY_MODEL :: pystr
  clean_content :: "pystr \<Rightarrow> pystr"
  summarize_with_openai :: "pystr \<Rightarrow> pystr \<Rightarrow> pystr option \<Rightarrow> pystr \<Rightarrow> summary_result"
  summarize_with_huggingface :: "pystr \<Rightarrow> pystr \<Rightarrow> summary_result"
  utcnow_isoformat :: pystr

text \<open>\<open>s.split('/')[-1]\<close> and \<open>' '.join(words)\<close>.\<close>

definition last_segment :: "pystr \<Rightarrow> pystr" where
  "last_segment s = rev (takeWhile (\<lambda>c. c \<noteq> 47) (rev s))"

fun join_space :: "pystr list \<Rightarrow> pystr" where
  "join_space [] = []"
| "join_space [w] = w"
| "join_space (w # ws) = w @ [32] @ join_space ws"

definition prepare_content_for_summarization :: "summ_env \<Rightarrow> pystr \<Rightarrow> pystr \<Rightarrow> pystr \<Rightarrow> pystr" where
  "prepare_content_for_summarization env content title model =
     (let config = (case map_of model_configs model of
                      None \<Rightarrow> the (map_of model_configs (S ''bart-large-cnn''))
                    | Some c \<Rightarrow> c);
          cleaned_content = clean_content env content;
          full_text = title @ [10, 10] @ cleaned_content;
          max_length = max_input_length config
      in if length (py_split full_text) > max_length
         then join_space (take max_length (py_split full_text))
         else full_text)"

fun strip_artifacts :: "pystr list \<Rightarrow> pystr \<Rightarrow> pystr" where
  "strip_artifacts [] summary = summary"
| "strip_artifacts (artifact # rest) summary =
     strip_artifacts rest
       (if startswith summary artifact then py_strip (drop (length artifact) summary) else summary)"

definition post_process_summary :: "pystr \<Rightarrow> pystr" where
  "post_process_summary summary0 =
     (if summary0 = [] then []
      else
        (let s1 = strip_artifacts
                    [S ''Summary:'', S ''In summary,'', S ''To summarize,'', S ''In conclusion,'']
                    (py_strip summary0);
             s2 = (if s1 \<noteq> [] \<and> last s1 \<notin> set [46, 33, 63] then s1 @ [46] else s1)
         in collapse_ws s2))"

text \<open>
  \<open>summarize_article\<close> returns the triple; the model adds the article as the call leaves
  it and the backend calls made, in order.
\<close>

definition summarize_article ::
  "summ_env \<Rightarrow> db_article \<Rightarrow> pystr option \<Rightarrow> pystr option
     \<Rightarrow> summary_result \<times> db_article \<times> backend_call list" where
  "summarize_article env article requested custom_prompt =
     (let model =
            (if truthy requested then the requested
             else (let m = last_segment (DEFAULT_SUMMARY_MODEL env)
                   in if m \<in> set (map fst model_configs) then m else S ''bart-large-cnn''));
          content = art_content article
      in if \<not> truthy content \<or> length (py_strip (the content)) < 100
         then ((False, None, Some (S ''Article content too short for summarization'')), article, [])
         else
           (let prepared_content =
                  prepare_content_for_summarization env (the content) (art_title article) model
            in case map_of model_configs model of
                 None \<Rightarrow> ((False, None, Some (S ''Unknown model: '' @ model)), article, [])
               | Some config \<Rightarrow>
                   (let (call, success, summary, error) =
                          (if model_type config = S ''openai''
                           then (Openai_call prepared_content model custom_prompt (art_language article),
                                 summarize_with_openai env prepared_content model custom_prompt
                                   (art_language article))
                           else (Huggingface_call prepared_content model,
                                 summarize_with_huggingface env prepared_content model))
                    in if success \<and> truthy summary
                       then
                         (let s = post_process_summary (the summary)
                          in ((True, Some s, None),
                              article\<lparr>art_summary := Some s,
                                      art_is_summary_generated := True,
                                      art_metadata :=
                                        AList.update (S ''summarization_timestamp'') (utcnow_isoformat env)
                                          (AList.update (S ''summarization_model'') model
                                             (art_metadata article))\<rparr>,
                              [call]))
                       else ((False, None, error), article, [call]))))"

subsection \<open>Batches\<close>

text \<open>
  An element of what \<open>asyncio.gather(..., return_exceptions=True)\<close> returns: the value a
  task returned, or the exception it raised.
\<close>

datatype 'r task_outcome = Returned 'r | Raised pystr

fun record_results ::
  "('k \<rightharpoonup> summary_result) \<Rightarrow> ('k \<times> summary_result task_outcome) list \<Rightarrow> ('k \<rightharpoonup> summary_result)" where
  "record_results results [] = results"
| "record_results results ((article_id, outcome) # rest) =
     record_results
       (results(article_id \<mapsto>
          (case outcome of Raised msg \<Rightarrow> (False, None, Some msg) | Returned r \<Rightarrow> r)))
       rest"

text \<open>
  The loop \<open>for i in range(0, len(articles), batch_size)\<close> for a positive batch size, on
  the articles not yet reached: \<open>str_id\<close> is \<open>str(article.id)\<close>, \<open>task\<close> the outcome of
  the article's \<open>summarize_article\<close> task, and \<open>fault n\<close> the message of an exception
  raised while batch \<open>n\<close> is set up or awaited, before any of its results is recorded.
  The result is the dictionary so far and the exception that left the loop, if any.
\<close>

function run_batches ::
  "('a \<Rightarrow> 'k) \<Rightarrow> ('a \<Rightarrow> summary_result task_outcome) \<Rightarrow> (nat \<Rightarrow> pystr option) \<Rightarrow> nat \<Rightarrow> nat
     \<Rightarrow> 'a list \<Rightarrow> ('k \<rightharpoonup> summary_result) \<Rightarrow> ('k \<rightharpoonup> summary_result) \<times> pystr option" where
  "run_batches str_id task fault batch_size n remaining results =
     (if remaining = [] \<or> batch_size = 0 then (results, None)
      else
        (case fault n of
           Some msg \<Rightarrow> (results, Some msg)
         | None \<Rightarrow>
             run_batches str_id task fault batch_size (Suc n) (drop batch_size remaining)
               (record_results results
                  (map (\<lambda>article. (str_id article, task article)) (take batch_size remaining)))))"
  by pat_completeness auto
termination
  by (relation "measure (\<lambda>(str_id, task, fault, batch_size, n, remaining, results). length remaining)") auto

text \<open>The handler's loop: every article without an entry gets a failure entry.\<close>

fun backfill :: "('k \<rightharpoonup> summary_result) \<Rightarrow> 'k list \<Rightarrow> pystr \<Rightarrow> ('k \<rightharpoonup> summary_result)" where
  "backfill results [] msg = results"
| "backfill results (article_id # rest) msg =
     backfill
       (if results article_id = None
        then results(article_id \<mapsto> (False, None, Some (S ''Batch processing error: '' @ msg)))
        else results)
       rest msg"

text \<open>
  \<open>batch_summarize_articles\<close>: a batch size of \<open>None\<close> or 0 is replaced by
  \<open>settings.SUMMARY_BATCH_SIZE\<close>; \<open>range\<close> raises ValueError on a step of 0 and is empty
  on a negative step.
\<close>

definition batch_summarize_articles ::
  "('a \<Rightarrow> 'k) \<Rightarrow> ('a \<Rightarrow> summary_result task_outcome) \<Rightarrow> (nat \<Rightarrow> pystr option) \<Rightarrow> int
     \<Rightarrow> 'a list \<Rightarrow> int option \<Rightarrow> ('k \<rightharpoonup> summary_result)" where
  "batch_summarize_articles str_id task fault SUMMARY_BATCH_SIZE articles batch_size =
     (let size = (case batch_size of
                    None \<Rightarrow> SUMMARY_BATCH_SIZE
                  | Some b \<Rightarrow> if b = 0 then SUMMARY_BATCH_SIZE else b);
          (results, raised) =
            (if size = 0 then (Map.empty, Some (S ''range() arg 3 must not be zero''))
             else if size < 0 then (Map.empty, None)
             else run_batches str_id task fault (nat size) 0 articles Map.empty)
      in case raised of
           None \<Rightarrow> results
         | Some msg \<Rightarrow> backfill results (map str_id articles) msg)"

section \<open>Example inputs\<close>

text \<open>
  Surroundings in which \<open>html.unescape\<close> leaves the text as it is (true of text without
  character references), every request times out and every payload parses to an empty
  feed; and a feed entry with the given title, a link and a body, no tags and no date.
\<close>

definition example_env :: env where
  "example_env =
     \<lparr>html_unescape = (\<lambda>s. s), utcnow = 0, MAX_RETRIES = 3,
      http_get = (\<lambda>feed_url n. Timeout),
      feedparser_parse = (\<lambda>payload. \<lparr>entries = [], bozo = False\<rparr>)\<rparr>"

definition example_entry :: "pystr \<Rightarrow> entry" where
  "example_entry title =
     \<lparr>e_title = Some title, e_link = Some (S ''http://example.org/a''), e_tags = None,
      e_id = S ''1'', e_feed_title = title, e_published = Inr None,
      e_content = Inr (S ''Council votes on the budget''), e_excerpt = Inr (S ''Council votes''),
      e_author = Inr None, e_image_url = Inr None\<rparr>"

text \<open>
  Surroundings of the summarization service in which both backends answer with a summary,
  and an article with the given content.
\<close>

definition example_summ_env :: summ_env where
  "example_summ_env =
     \<lparr>DEFAULT_SUMMARY_MODEL = S ''facebook/bart-large-cnn'', clean_content = (\<lambda>s. s),
      summarize_with_openai = (\<lambda>prepared model prompt lang. (True, Some (S ''A summary''), None)),
      summarize_with_huggingface = (\<lambda>prepared model. (True, Some (S ''A summary''), None)),
      utcnow_isoformat = S ''2024-01-01T00:00:00''\<rparr>"

definition example_article :: "nat \<Rightarrow> pystr option \<Rightarrow> db_article" where
  "example_article n content =
     \<lparr>art_id = n, art_title = S ''Title'', art_content = content, art_language = S ''en'',
      art_summary = None, art_is_summary_generated = False, art_metadata = []\<rparr>"

section \<open>Properties of the health tracker\<close>

lemma update_failure_count:
  "error_count (update_health_status s False m) = error_count s + 1"
  by (simp add: update_health_status_def Let_def)

lemma update_failure_status:
  "health_status (update_health_status s False m) =
     (if error_count s + 1 \<ge> 5 then S ''error''
      else if error_count s + 1 \<ge> 2 then S ''warning''
      else health_status s)"
  by (simp add: update_health_status_def Let_def)

lemma update_success:
  "error_count (update_health_status s True m) = 0 \<and>
   health_status (update_health_status s True m) = S ''healthy''"
  by (simp add: update_health_status_def Let_def)

lemma failures_count:
  "error_count (record_outcomes s (failures msgs)) = error_count s + int (length msgs)"
  by (induction msgs arbitrary: s) (simp_all add: failures_def update_failure_count)

lemma failures_status:
  "msgs \<noteq> [] \<Longrightarrow>
   health_status (record_outcomes s (failures msgs)) =
     (if error_count s + int (length msgs) \<ge> 5 then S ''error''
      else if error_count s + int (length msgs) \<ge> 2 then S ''warning''
      else health_status s)"
proof (induction msgs arbitrary: s rule: rev_induct)
  case Nil
  then show ?case by simp
next
  case (snoc m msgs)
  have step: "record_outcomes s (failures (msgs @ [m])) =
      update_health_status (record_outcomes s (failures msgs)) False m" for s
    by (induction msgs arbitrary: s) (simp_all add: failures_def)
  show ?case
  proof (cases "msgs = []")
    case True
    then show ?thesis
      by (simp add: failures_def update_failure_status)
  next
    case False
    with snoc.IH [of s] show ?thesis
      by (simp add: step update_failure_status failures_count)
  qed
qed

lemma record_outcomes_append:
  "record_outcomes s (xs @ ys) = record_outcomes (record_outcomes s xs) ys"
  by (induction xs arbitrary: s) auto

text \<open>
  Claim C3. The health status is determined by the consecutive error count. Starting from
  a count of 0 (a new source, or the state just after a success), a run of \<open>n\<close> failures
  leaves the count at \<open>n\<close>; the status is then \<open>error\<close> for \<open>n \<ge> 5\<close>, \<open>warning\<close> for
  \<open>2 \<le> n \<le> 4\<close>, and for \<open>n = 1\<close> the value it had before. From any non-negative count, five
  or more consecutive failures yield \<open>error\<close>. One success after any sequence of outcomes
  resets the count to 0 and the status to \<open>healthy\<close>.
\<close>

theorem health_status_by_consecutive_errors:
  "(error_count s = 0 \<longrightarrow>
      error_count (record_outcomes s (failures msgs)) = int (length msgs) \<and>
      (5 \<le> length msgs \<longrightarrow>
         health_status (record_outcomes s (failures msgs)) = S ''error'') \<and>
      (2 \<le> length msgs \<and> length msgs \<le> 4 \<longrightarrow>
         health_status (record_outcomes s (failures msgs)) = S ''warning'') \<and>
      (length msgs = 1 \<longrightarrow>
         health_status (record_outcomes s (failures msgs)) = health_status s)) \<and>
   (0 \<le> error_count s \<and> 5 \<le> length msgs \<longrightarrow>
      health_status (record_outcomes s (failures msgs)) = S ''error'') \<and>
   error_count (record_outcomes s (history @ [(True, m)])) = 0 \<and>
   health_status (record_outcomes s (history @ [(True, m)])) = S ''healthy''"
proof -
  have run: "msgs \<noteq> [] \<Longrightarrow>
      health_status (record_outcomes s (failures msgs)) =
        (if error_count s + int (length msgs) \<ge> 5 then S ''error''
         else if error_count s + int (length msgs) \<ge> 2 then S ''warning''
         else health_status s)"
    by (rule failures_status)
  have count: "error_count s = 0 \<longrightarrow>
      error_count (record_outcomes s (failures msgs)) = int (length msgs)"
    by (simp add: failures_count)
  have err0: "error_count s = 0 \<longrightarrow> 5 \<le> length msgs \<longrightarrow>
      health_status (record_outcomes s (failures msgs)) = S ''error''"
    using run by (cases "msgs = []") auto
  have warn: "error_count s = 0 \<longrightarrow> 2 \<le> length msgs \<and> length msgs \<le> 4 \<longrightarrow>
      health_status (record_outcomes s (failures msgs)) = S ''warning''"
    using run by (cases "msgs = []") auto
  have one: "error_count s = 0 \<longrightarrow> length msgs = 1 \<longrightarrow>
      health_status (record_outcomes s (failures msgs)) = health_status s"
    using run by (cases "msgs = []") auto
  have err: "0 \<le> error_count s \<and> 5 \<le> length msgs \<longrightarrow>
      health_status (record_outcomes s (failures msgs)) = S ''error''"
    using run by (cases "msgs = []") auto
  have reset: "error_count (record_outcomes s (history @ [(True, m)])) = 0 \<and>
      health_status (record_outcomes s (history @ [(True, m)])) = S ''healthy''"
    by (simp add: record_outcomes_append update_success)
  from count err0 warn one err reset show ?thesis by blast
qed

text \<open>
  The theorem at the source the column defaults create: five failures give \<open>error\<close>,
  three give \<open>warning\<close>, one leaves \<open>healthy\<close>, and a success after two failures resets
  the count.
\<close>

theorem health_status_by_consecutive_errors_witness:
  "error_count default_source = 0 \<and>
   health_status (record_outcomes default_source (failures (replicate 5 None))) = S ''error'' \<and>
   health_status (record_outcomes default_source (failures (replicate 3 None))) = S ''warning'' \<and>
   error_count (record_outcomes default_source (failures (replicate 3 None))) = 3 \<and>
   health_status (record_outcomes default_source (failures [None])) = health_status default_source \<and>
   error_count (record_outcomes default_source ([(False, None), (False, None)] @ [(True, None)])) = 0 \<and>
   health_status (record_outcomes default_source ([(False, None), (False, None)] @ [(True, None)])) = S ''healthy''"
  using health_status_by_consecutive_errors [of default_source "replicate 5 None" "[(False, None), (False, None)]" None]
    health_status_by_consecutive_errors [of default_source "replicate 3 None" "[]" None]
    health_status_by_consecutive_errors [of default_source "[None]" "[]" None]
  by (simp add: default_source_def)

section \<open>Properties of the fingerprint\<close>

lemma length_hexdigest: "length (hexdigest bs) = 2 * length bs"
  by (induction bs) (simp_all add: hexdigest_def)

lemma length_md5_digest: "length (md5_digest msg) = 16"
  by (simp add: md5_digest_def Let_def le_bytes32_def split: prod.splits)

lemma content_hash_length:
  "generate_content_hash title content = Inr d \<Longrightarrow> length d = 32"
  by (auto simp: generate_content_hash_def Let_def length_hexdigest length_md5_digest
      split: option.splits)

lemma utf8_cp_scalar:
  "c < 55296 \<or> (57343 < c \<and> c < 1114112) \<Longrightarrow> utf8_cp c \<noteq> None"
  by auto

lemma encode_utf8_scalars:
  "list_all (\<lambda>c. c < 55296 \<or> (57343 < c \<and> c < 1114112)) s \<Longrightarrow> encode_utf8 s \<noteq> None"
proof (induction s)
  case Nil
  then show ?case by simp
next
  case (Cons c s)
  then have "utf8_cp c \<noteq> None" and "encode_utf8 s \<noteq> None"
    using utf8_cp_scalar [of c] by simp_all
  then show ?case
    by (auto simp del: utf8_cp.simps)
qed

lemma content_hash_returns:
  assumes "list_all (\<lambda>c. c < 55296 \<or> (57343 < c \<and> c < 1114112)) (title @ take 500 content)"
  shows "\<exists>d. generate_content_hash title content = Inr d \<and> length d = 32"
proof -
  from assms obtain bs where "encode_utf8 (title @ take 500 content) = Some bs"
    using encode_utf8_scalars by blast
  then show ?thesis
    by (simp add: generate_content_hash_def Let_def length_hexdigest length_md5_digest)
qed

text \<open>
  Claim C6. The fingerprint is a function of the title and the first 500 code points of the
  body: two bodies that agree there give the same result for the same title. Every digest
  it returns has 32 characters, and it returns one whenever the title and the first 500
  code points of the body can be encoded (no surrogate among them).
\<close>

theorem fingerprint_title_and_first_500:
  "(take 500 content1 = take 500 content2 \<longrightarrow>
      generate_content_hash title content1 = generate_content_hash title content2) \<and>
   (generate_content_hash title content = Inr d \<longrightarrow> length d = 32) \<and>
   (list_all (\<lambda>c. c < 55296 \<or> (57343 < c \<and> c < 1114112)) (title @ take 500 content) \<longrightarrow>
      (\<exists>d'. generate_content_hash title content = Inr d' \<and> length d' = 32))"
  using content_hash_length [of title content d] content_hash_returns [of title content]
  by (simp add: generate_content_hash_def)

text \<open>
  The theorem at two bodies of 501 characters that differ only in the last one, under
  the title \<open>abc\<close>.
\<close>

theorem fingerprint_title_and_first_500_witness:
  "take 500 (replicate 500 (97::nat) @ [98]) = take 500 (replicate 500 97 @ [99]) \<and>
   generate_content_hash (S ''abc'') (replicate 500 97 @ [98]) =
     generate_content_hash (S ''abc'') (replicate 500 97 @ [99]) \<and>
   (\<exists>d'. generate_content_hash (S ''abc'') (replicate 500 97 @ [98]) = Inr d' \<and> length d' = 32)"
proof -
  have same: "take 500 (replicate 500 (97::nat) @ [98]) = take 500 (replicate 500 97 @ [99])"
    by simp
  have ok: "list_all (\<lambda>c. c < 55296 \<or> (57343 < c \<and> c < 1114112))
      (S ''abc'' @ take 500 (replicate 500 (97::nat) @ [98]))"
    by (simp add: S_def list_all_iff)
  show ?thesis
    using fingerprint_title_and_first_500
      [of "replicate 500 97 @ [98]" "replicate 500 97 @ [99]" "S ''abc''" "replicate 500 97 @ [98]"]
      same ok
    by blast
qed

text \<open>
  Claim C10. The title and the truncated body are concatenated with no separator: moving
  a character \<open>c\<close> from the end of the title to the front of a body of at most 499
  characters leaves the fingerprint unchanged, although the two (title, body) pairs differ.
\<close>

theorem fingerprint_boundary_not_recoverable:
  "length content \<le> 499 \<longrightarrow>
     generate_content_hash (title @ [c]) content = generate_content_hash title (c # content) \<and>
     (title @ [c], content) \<noteq> (title, c # content)"
  by (simp add: generate_content_hash_def)

text \<open>The theorem at the pairs (\<open>ab\<close>, empty body) and (\<open>a\<close>, body \<open>b\<close>).\<close>

theorem fingerprint_boundary_not_recoverable_witness:
  "length ([] :: pystr) \<le> 499 \<and>
   generate_content_hash (S ''a'' @ [98]) [] = generate_content_hash (S ''a'') [98] \<and>
   (S ''a'' @ [98], []) \<noteq> (S ''a'', [98 :: nat])"
  using fingerprint_boundary_not_recoverable [of "[]" "S ''a''" 98]
  by simp

section \<open>Properties of extraction and classification\<close>

lemma scan_tags_values:
  "scan_tags tags category = Inr c \<Longrightarrow> c = category \<or> c = S ''opinion''"
  by (induction tags category rule: scan_tags.induct) (auto simp: Let_def split: if_splits)

lemma extract_category_values:
  "extract_category entry src = Inr c \<Longrightarrow> c = S ''editorial'' \<or> c = S ''opinion''"
  by (auto simp: extract_category_def Let_def split: option.splits sum.splits if_splits
      dest: scan_tags_values)

lemma extract_article_data_category:
  "extract_article_data env entry src = Some a \<Longrightarrow>
   a_category a = S ''editorial'' \<or> a_category a = S ''opinion''"
  by (auto simp: extract_article_data_def Let_def split: option.splits sum.splits if_splits
      dest: extract_category_values)

lemma extract_entries_member:
  "a \<in> set (extract_entries env src es) \<Longrightarrow> \<exists>e\<in>set es. extract_article_data env e src = Some a"
  by (induction es) (auto split: option.splits)

lemma lower_editorial: "py_lower (S ''editorial'') = S ''editorial''"
  by (simp add: py_lower_def S_def lower_cp_def)

lemma lower_opinion: "py_lower (S ''opinion'') = S ''opinion''"
  by (simp add: py_lower_def S_def lower_cp_def)

lemma is_editorial_content_category:
  "a_category a = S ''editorial'' \<or> a_category a = S ''opinion'' \<Longrightarrow> is_editorial_content a src"
  by (auto simp: is_editorial_content_def Let_def lower_editorial lower_opinion)

lemma filter_keeps_all:
  "(\<And>a. a \<in> set as \<Longrightarrow> is_editorial_content a src) \<Longrightarrow>
   length (filter_editorial_articles as src) = length as"
  by (induction as) auto

lemma in_set_slice: "x \<in> set (py_slice_to xs n) \<Longrightarrow> x \<in> set xs"
  by (auto simp: py_slice_to_def split: option.splits if_splits dest: in_set_takeD)

lemma extracted_member:
  "a \<in> set (extract_articles_from_feed env feed_data src) \<Longrightarrow>
   \<exists>e\<in>set (entries feed_data). extract_article_data env e src = Some a"
  unfolding extract_articles_from_feed_def
  by (meson extract_entries_member in_set_slice)

lemma extract_article_data_Some:
  assumes "clean_text env (case e_title entry of None \<Rightarrow> [] | Some t \<Rightarrow> t) = title" and "title \<noteq> []"
    and "e_link entry = Some u" and "u \<noteq> []"
    and "e_published entry = Inr parsed" and "e_content entry = Inr content"
    and "e_excerpt entry = Inr excerpt" and "e_author entry = Inr author"
    and "e_image_url entry = Inr image_url" and "extract_category entry src = Inr category"
    and "list_all (\<lambda>c. c < 55296 \<or> (57343 < c \<and> c < 1114112)) (title @ take 500 content)"
  shows "\<exists>a. extract_article_data env entry src = Some a \<and> a_title a = title \<and> a_url a = u \<and>
           a_content a = content \<and> a_category a = category"
proof -
  obtain d where "generate_content_hash title content = Inr d"
    using content_hash_returns [OF assms(11)] by blast
  with assms(1-10) show ?thesis
    by (simp add: extract_article_data_def Let_def)
qed

lemma clean_text_example:
  "clean_text example_env (S ''Editorial board meets'') = S ''Editorial board meets''"
  by (simp add: clean_text_def example_env_def S_def py_strip_def collapse_ws_def isspace_def)

lemma extract_category_example:
  "extract_category (example_entry (S ''Editorial board meets'')) src = Inr (S ''editorial'')"
  by (simp add: extract_category_def example_entry_def Let_def S_def py_lower_def lower_cp_def)

lemma example_extracted:
  "\<exists>a. extract_article_data example_env (example_entry (S ''Editorial board meets'')) src = Some a \<and>
       a_title a = S ''Editorial board meets'' \<and> a_url a = S ''http://example.org/a'' \<and>
       a_content a = S ''Council votes on the budget'' \<and> a_category a = S ''editorial''"
proof (rule extract_article_data_Some)
  show "clean_text example_env
      (case e_title (example_entry (S ''Editorial board meets'')) of None \<Rightarrow> [] | Some t \<Rightarrow> t) =
      S ''Editorial board meets''"
    by (simp add: example_entry_def clean_text_example)
  show "S ''Editorial board meets'' \<noteq> []" by (simp add: S_def)
  show "e_link (example_entry (S ''Editorial board meets'')) = Some (S ''http://example.org/a'')"
    by (simp add: example_entry_def)
  show "S ''http://example.org/a'' \<noteq> []" by (simp add: S_def)
  show "e_published (example_entry (S ''Editorial board meets'')) = Inr None"
    by (simp add: example_entry_def)
  show "e_content (example_entry (S ''Editorial board meets'')) = Inr (S ''Council votes on the budget'')"
    by (simp add: example_entry_def)
  show "e_excerpt (example_entry (S ''Editorial board meets'')) = Inr (S ''Council votes'')"
    by (simp add: example_entry_def)
  show "e_author (example_entry (S ''Editorial board meets'')) = Inr None"
    by (simp add: example_entry_def)
  show "e_image_url (example_entry (S ''Editorial board meets'')) = Inr None"
    by (simp add: example_entry_def)
  show "extract_category (example_entry (S ''Editorial board meets'')) src = Inr (S ''editorial'')"
    by (rule extract_category_example)
  show "list_all (\<lambda>c. c < 55296 \<or> (57343 < c \<and> c < 1114112))
      (S ''Editorial board meets'' @ take 500 (S ''Council votes on the budget''))"
    by (simp add: S_def)
qed

lemma scan_tags_default:
  "list_all (\<lambda>t. case t of None \<Rightarrow> False
       | Some term \<Rightarrow> \<not> list_ex (\<lambda>keyword. py_in keyword (py_lower term))
                          [S ''opinion'', S ''editorial'', S ''comment'']) tags \<Longrightarrow>
   scan_tags tags category = Inr category"
  by (induction tags category rule: scan_tags.induct) (simp_all add: Let_def)

lemma extract_category_default:
  assumes "case e_tags entry of None \<Rightarrow> True
     | Some tags \<Rightarrow> list_all (\<lambda>t. case t of None \<Rightarrow> False
         | Some term \<Rightarrow> \<not> list_ex (\<lambda>keyword. py_in keyword (py_lower term))
                            [S ''opinion'', S ''editorial'', S ''comment'']) tags"
    and "\<not> list_ex (\<lambda>keyword. py_in keyword (py_lower (case e_title entry of None \<Rightarrow> [] | Some t \<Rightarrow> t)))
           [S ''opinion:'', S ''editorial:'', S ''comment:'']"
  shows "extract_category entry src = Inr (S ''editorial'')"
proof (cases "e_tags entry")
  case None
  with assms(2) show ?thesis
    by (simp add: extract_category_def Let_def)
next
  case (Some tags)
  with assms(1) have "list_all (\<lambda>t. case t of None \<Rightarrow> False
         | Some term \<Rightarrow> \<not> list_ex (\<lambda>keyword. py_in keyword (py_lower term))
                            [S ''opinion'', S ''editorial'', S ''comment'']) tags"
    by (simp only: option.case)
  then have "scan_tags tags (S ''editorial'') = Inr (S ''editorial'')"
    by (rule scan_tags_default)
  with Some assms(2) show ?thesis
    by (simp add: extract_category_def Let_def)
qed

text \<open>
  Claim C9. Every article that extraction produces has the category \<open>editorial\<close> or
  \<open>opinion\<close>; the category is \<open>editorial\<close> when no tag and no title prefix matches. So
  the classifier's first check accepts every extracted article, whatever the keyword
  filters of the source, and the filter keeps all of them.
\<close>

theorem extracted_category_always_accepted:
  "(extract_article_data env entry src = Some a \<longrightarrow>
      (a_category a = S ''editorial'' \<or> a_category a = S ''opinion'') \<and>
      is_editorial_content a src') \<and>
   (b \<in> set (extract_articles_from_feed env feed_data src) \<longrightarrow>
      (a_category b = S ''editorial'' \<or> a_category b = S ''opinion'') \<and>
      is_editorial_content b src') \<and>
   length (filter_editorial_articles (extract_articles_from_feed env feed_data src) src') =
     length (extract_articles_from_feed env feed_data src) \<and>
   ((case e_tags entry of None \<Rightarrow> True
     | Some tags \<Rightarrow> list_all (\<lambda>t. case t of None \<Rightarrow> False
         | Some term \<Rightarrow> \<not> list_ex (\<lambda>keyword. py_in keyword (py_lower term))
                            [S ''opinion'', S ''editorial'', S ''comment'']) tags) \<and>
    \<not> list_ex (\<lambda>keyword. py_in keyword (py_lower (case e_title entry of None \<Rightarrow> [] | Some t \<Rightarrow> t)))
           [S ''opinion:'', S ''editorial:'', S ''comment:''] \<longrightarrow>
      extract_category entry src = Inr (S ''editorial''))"
proof -
  have one: "extract_article_data env entry src = Some a \<longrightarrow>
      (a_category a = S ''editorial'' \<or> a_category a = S ''opinion'') \<and> is_editorial_content a src'"
    using extract_article_data_category is_editorial_content_category by blast
  have all: "(a_category x = S ''editorial'' \<or> a_category x = S ''opinion'') \<and> is_editorial_content x src'"
    if "x \<in> set (extract_articles_from_feed env feed_data src)" for x
    using that extracted_member extract_article_data_category is_editorial_content_category
    by blast
  have keep: "length (filter_editorial_articles (extract_articles_from_feed env feed_data src) src') =
      length (extract_articles_from_feed env feed_data src)"
    by (rule filter_keeps_all) (simp add: all)
  from one all keep extract_category_default [of entry src] show ?thesis
    by blast
qed

text \<open>
  The theorem at an entry titled \<open>Editorial board meets\<close> without tags, for a source
  whose keyword filter is \<open>climate\<close>.
\<close>

theorem extracted_category_always_accepted_witness:
  "\<exists>a. extract_article_data example_env (example_entry (S ''Editorial board meets''))
          (default_source\<lparr>keyword_filters := [S ''climate'']\<rparr>) = Some a \<and>
       a_category a = S ''editorial'' \<and>
       is_editorial_content a (default_source\<lparr>keyword_filters := [S ''climate'']\<rparr>) \<and>
       extract_category (example_entry (S ''Editorial board meets''))
          (default_source\<lparr>keyword_filters := [S ''climate'']\<rparr>) = Inr (S ''editorial'')"
proof -
  obtain a where a: "extract_article_data example_env (example_entry (S ''Editorial board meets''))
          (default_source\<lparr>keyword_filters := [S ''climate'']\<rparr>) = Some a"
      and cat: "a_category a = S ''editorial''"
    using example_extracted by blast
  from extracted_category_always_accepted
    [of example_env "example_entry (S ''Editorial board meets'')"
      "default_source\<lparr>keyword_filters := [S ''climate'']\<rparr>" a
      "default_source\<lparr>keyword_filters := [S ''climate'']\<rparr>"]
    a cat extract_category_example
  show ?thesis by blast
qed

text \<open>
  The classifier on its own does reject an article whose category is none of the three,
  whose title has no indicator and which matches no include keyword of the source.
\<close>

lemma classifier_rejects_without_include_keyword:
  assumes "py_lower (a_category a) \<notin> set [S ''editorial'', S ''opinion'', S ''comment'']"
    and "\<not> list_ex (\<lambda>indicator. py_in indicator (py_lower (a_title a))) editorial_indicators"
    and "keyword_filters src \<noteq> []"
    and "\<not> list_ex (\<lambda>keyword. py_in (py_lower keyword) (py_lower (a_title a)) \<or>
                               py_in (py_lower keyword) (py_lower (a_content a))) (keyword_filters src)"
  shows "\<not> is_editorial_content a src"
  using assms by (simp add: is_editorial_content_def Let_def)

lemma example_feed_extracted:
  "\<exists>a. extract_articles_from_feed example_env
          \<lparr>entries = [example_entry (S ''Editorial board meets'')], bozo = False\<rparr>
          (default_source\<lparr>keyword_filters := [S ''climate'']\<rparr>) = [a] \<and>
       a_title a = S ''Editorial board meets'' \<and> a_content a = S ''Council votes on the budget'' \<and>
       a_category a = S ''editorial''"
proof -
  obtain a where "extract_article_data example_env (example_entry (S ''Editorial board meets''))
          (default_source\<lparr>keyword_filters := [S ''climate'']\<rparr>) = Some a"
    and "a_title a = S ''Editorial board meets''" and "a_content a = S ''Council votes on the budget''"
    and "a_category a = S ''editorial''"
    using example_extracted by blast
  then show ?thesis
    by (simp add: extract_articles_from_feed_def py_slice_to_def default_source_def)
qed

text \<open>
  Claim C1, on the code. An entry without tags, titled \<open>Editorial board meets\<close>, from a
  source whose include keywords are \<open>climate\<close>: neither title nor body contains the
  keyword, yet extraction gives the article the category \<open>editorial\<close>, the classifier
  accepts it at its first check and the filter keeps it.
\<close>

theorem include_keyword_filter_bypassed:
  "\<exists>a. extract_articles_from_feed example_env
          \<lparr>entries = [example_entry (S ''Editorial board meets'')], bozo = False\<rparr>
          (default_source\<lparr>keyword_filters := [S ''climate'']\<rparr>) = [a] \<and>
       \<not> py_in (py_lower (S ''climate'')) (py_lower (a_title a)) \<and>
       \<not> py_in (py_lower (S ''climate'')) (py_lower (a_content a)) \<and>
       \<not> list_ex (\<lambda>indicator. py_in indicator (py_lower (a_title a))) editorial_indicators \<and>
       is_editorial_content a (default_source\<lparr>keyword_filters := [S ''climate'']\<rparr>) \<and>
       length (filter_editorial_articles [a] (default_source\<lparr>keyword_filters := [S ''climate'']\<rparr>)) = 1"
proof -
  obtain a where a: "extract_articles_from_feed example_env
          \<lparr>entries = [example_entry (S ''Editorial board meets'')], bozo = False\<rparr>
          (default_source\<lparr>keyword_filters := [S ''climate'']\<rparr>) = [a]"
    and t: "a_title a = S ''Editorial board meets''"
    and c: "a_content a = S ''Council votes on the budget''"
    and cat: "a_category a = S ''editorial''"
    using example_feed_extracted by blast
  have acc: "is_editorial_content a (default_source\<lparr>keyword_filters := [S ''climate'']\<rparr>)"
    using cat by (simp add: is_editorial_content_category)
  have nt: "\<not> py_in (py_lower (S ''climate'')) (py_lower (a_title a))"
    by (simp add: t S_def py_lower_def lower_cp_def)
  have nc: "\<not> py_in (py_lower (S ''climate'')) (py_lower (a_content a))"
    by (simp add: c S_def py_lower_def lower_cp_def)
  have ni: "\<not> list_ex (\<lambda>indicator. py_in indicator (py_lower (a_title a))) editorial_indicators"
    by (simp add: t S_def py_lower_def lower_cp_def editorial_indicators_def)
  from a acc nt nc ni show ?thesis by auto
qed

lemma clean_text_empty: "clean_text env [] = []"
  by (simp add: clean_text_def)

lemma extract_article_data_missing:
  "e_title entry = None \<or> e_title entry = Some [] \<or> e_link entry = None \<or> e_link entry = Some [] \<Longrightarrow>
   extract_article_data env entry src = None"
  by (auto simp: extract_article_data_def Let_def clean_text_empty)

lemma extract_entries_append:
  "extract_entries env src (xs @ ys) = extract_entries env src xs @ extract_entries env src ys"
  by (induction xs) (auto split: option.splits)

lemma extract_entries_skip:
  "extract_article_data env entry src = None \<Longrightarrow>
   extract_entries env src (before @ entry # after) =
     extract_entries env src before @ extract_entries env src after"
  by (simp add: extract_entries_append)

lemma length_extract_entries: "length (extract_entries env src es) \<le> length es"
  by (induction es) (auto split: option.splits)

lemma length_slice: "0 \<le> m \<Longrightarrow> length (py_slice_to xs (Some m)) \<le> nat m"
  by (simp add: py_slice_to_def)

lemma extract_at_most_max:
  assumes "max_articles_per_fetch src = Some m" and "0 \<le> m"
  shows "int (length (extract_articles_from_feed env feed_data src)) \<le> m"
proof -
  have "length (extract_articles_from_feed env feed_data src)
      \<le> length (py_slice_to (entries feed_data) (Some m))"
    using assms(1) by (simp add: extract_articles_from_feed_def length_extract_entries)
  also have "\<dots> \<le> nat m"
    using assms(2) by (rule length_slice)
  finally show ?thesis using assms(2) by linarith
qed

text \<open>
  Claim C7, as the code has it. For a source whose \<open>max_articles_per_fetch\<close> is a
  non-negative integer, extraction returns at most that many articles. An entry whose
  title or link is missing or empty yields no article, and an entry that yields none
  (missing field or a failure inside its extraction) is skipped: the articles of the
  entries before and after it are extracted as if it were not there. The extraction of a
  list of entries is the concatenation of the extractions of its parts.
\<close>

theorem extraction_bounded_and_isolated:
  "(max_articles_per_fetch src = Some m \<and> 0 \<le> m \<longrightarrow>
      int (length (extract_articles_from_feed env feed_data src)) \<le> m) \<and>
   (e_title entry = None \<or> e_title entry = Some [] \<or> e_link entry = None \<or> e_link entry = Some [] \<longrightarrow>
      extract_article_data env entry src = None) \<and>
   (extract_article_data env entry src = None \<longrightarrow>
      extract_entries env src (before @ entry # after) =
        extract_entries env src before @ extract_entries env src after) \<and>
   extract_entries env src (xs @ ys) = extract_entries env src xs @ extract_entries env src ys"
  using extract_at_most_max [of src m env feed_data] extract_article_data_missing [of entry env src]
    extract_entries_skip [of env entry src before after] extract_entries_append [of env src xs ys]
  by blast

lemma example_entries_extracted:
  "\<exists>a. extract_entries example_env src (replicate n (example_entry (S ''Editorial board meets'')))
       = replicate n a"
proof -
  obtain a where a: "extract_article_data example_env (example_entry (S ''Editorial board meets'')) src = Some a"
    using example_extracted by blast
  have "extract_entries example_env src (replicate n (example_entry (S ''Editorial board meets'')))
       = replicate n a"
    by (induction n) (simp_all add: a)
  then show ?thesis ..
qed

text \<open>
  The theorem at a feed of three entries, the second without a title, for a source whose
  limit is 1: one article, and the entry without title is skipped.
\<close>

theorem extraction_bounded_and_isolated_witness:
  "max_articles_per_fetch (default_source\<lparr>max_articles_per_fetch := Some 1\<rparr>) = Some 1 \<and> (0::int) \<le> 1 \<and>
   int (length (extract_articles_from_feed example_env
      \<lparr>entries = [example_entry (S ''Editorial board meets''),
                  (example_entry [])\<lparr>e_title := None\<rparr>,
                  example_entry (S ''Editorial board meets'')], bozo = False\<rparr>
      (default_source\<lparr>max_articles_per_fetch := Some 1\<rparr>))) \<le> 1 \<and>
   e_title ((example_entry [])\<lparr>e_title := None\<rparr>) = None \<and>
   extract_article_data example_env ((example_entry [])\<lparr>e_title := None\<rparr>) default_source = None \<and>
   extract_entries example_env default_source
       ([example_entry (S ''Editorial board meets'')] @ (example_entry [])\<lparr>e_title := None\<rparr>
          # [example_entry (S ''Editorial board meets'')]) =
     extract_entries example_env default_source [example_entry (S ''Editorial board meets'')] @
     extract_entries example_env default_source [example_entry (S ''Editorial board meets'')]"
proof -
  have t: "e_title ((example_entry [])\<lparr>e_title := None\<rparr>) = None"
    by simp
  show ?thesis
    using extraction_bounded_and_isolated
      [of "default_source\<lparr>max_articles_per_fetch := Some 1\<rparr>" 1 example_env
        "\<lparr>entries = [example_entry (S ''Editorial board meets''),
                  (example_entry [])\<lparr>e_title := None\<rparr>,
                  example_entry (S ''Editorial board meets'')], bozo = False\<rparr>"
        "(example_entry [])\<lparr>e_title := None\<rparr>"]
      extraction_bounded_and_isolated
      [of default_source 1 example_env "\<lparr>entries = [], bozo = False\<rparr>"
        "(example_entry [])\<lparr>e_title := None\<rparr>" "[example_entry (S ''Editorial board meets'')]"
        "[example_entry (S ''Editorial board meets'')]"]
      t
    by simp
qed

text \<open>
  Claim C7 as stated fails where the limit is negative: \<open>entries[:-1]\<close> is all entries but
  the last, so a feed of three entries yields two articles under a limit of -1.
\<close>

theorem extraction_negative_limit_counterexample:
  "max_articles_per_fetch (default_source\<lparr>max_articles_per_fetch := Some (- 1)\<rparr>) = Some (- 1) \<and>
   length (extract_articles_from_feed example_env
      \<lparr>entries = replicate 3 (example_entry (S ''Editorial board meets'')), bozo = False\<rparr>
      (default_source\<lparr>max_articles_per_fetch := Some (- 1)\<rparr>)) = 2 \<and>
   \<not> int (length (extract_articles_from_feed example_env
      \<lparr>entries = replicate 3 (example_entry (S ''Editorial board meets'')), bozo = False\<rparr>
      (default_source\<lparr>max_articles_per_fetch := Some (- 1)\<rparr>))) \<le> - 1"
proof -
  obtain a where "extract_entries example_env (default_source\<lparr>max_articles_per_fetch := Some (- 1)\<rparr>)
      (replicate 2 (example_entry (S ''Editorial board meets''))) = replicate 2 a"
    using example_entries_extracted by blast
  then have "length (extract_articles_from_feed example_env
      \<lparr>entries = replicate 3 (example_entry (S ''Editorial board meets'')), bozo = False\<rparr>
      (default_source\<lparr>max_articles_per_fetch := Some (- 1)\<rparr>)) = 2"
    by (simp add: extract_articles_from_feed_def py_slice_to_def numeral_2_eq_2 numeral_3_eq_3)
  then show ?thesis by simp
qed

end
